theory Spec2Isabelle
  imports Complex_Main
begin

section \<open>SLO monitor: data model\<close>

text \<open>
  A shallow embedding of \<^verbatim>\<open>src/slo_monitor.py\<close> (class \<^verbatim>\<open>SLOMonitor\<close>).

  Numbers. The percentages of the source are Python floats (\<^verbatim>\<open>success_rate\<close>,
  \<^verbatim>\<open>current_slo\<close>) and \<^verbatim>\<open>decimal.Decimal\<close> values (everything computed from a
  \<^verbatim>\<open>DECIMAL\<close> column that psycopg2 hands back: \<^verbatim>\<open>target\<close>, \<^verbatim>\<open>allowed_errors\<close>,
  \<^verbatim>\<open>error_budget_remaining\<close>, the burn rate). Both are modelled as exact rationals
  (\<^typ>\<open>rat\<close>): the rounding of a binary double and of the 28-digit decimal context is
  outside the model, and so are NaN and the infinities. Counts are Python integers
  (\<^typ>\<open>int\<close>).

  Errors. An exception of the source is a value \<open>Inl e\<close> of the result.

  Database. The three tables of \<^verbatim>\<open>setup\<close> are lists of rows, in insertion order. The
  serial keys \<^verbatim>\<open>measurement_id\<close> and \<^verbatim>\<open>alert_id\<close> are never read by the source and are
  left out; a row holds the values handed to \<^verbatim>\<open>INSERT\<close> (the rounding of a
  \<^verbatim>\<open>DECIMAL(p,2)\<close> column is outside the model). \<^verbatim>\<open>NOW()\<close> is a parameter \<open>now\<close>,
  in microseconds.
\<close>

datatype py_error =
    ZeroDivisionError   \<comment> \<open>\<^verbatim>\<open>int / 0\<close>, and \<^verbatim>\<open>decimal.DivisionByZero\<close>, its subclass\<close>
  | InvalidOperation    \<comment> \<open>\<^verbatim>\<open>decimal.InvalidOperation\<close>: \<^verbatim>\<open>Decimal(0) / Decimal(0)\<close>\<close>
  | TypeError           \<comment> \<open>unpacking \<^verbatim>\<open>None\<close>\<close>

type_synonym timestamp = int

text \<open>The dictionaries of the list \<^verbatim>\<open>slos\<close> in \<^verbatim>\<open>define_slos\<close>.\<close>

record slo =
  slo_id :: string
  service_name :: string
  slo_type :: string
  slo_target :: rat   \<comment> \<open>key \<^verbatim>\<open>'target'\<close>\<close>
  slo_window :: int   \<comment> \<open>key \<^verbatim>\<open>'window'\<close>\<close>
  description :: string

text \<open>Rows of \<^verbatim>\<open>slo_definitions\<close>, \<^verbatim>\<open>slo_measurements\<close> and \<^verbatim>\<open>slo_alerts\<close>.\<close>

record definition_row =
  d_slo_id :: string
  d_service_name :: string
  d_slo_type :: string
  target_percentage :: rat
  measurement_window_hours :: int
  d_description :: string

record measurement_row =
  m_slo_id :: string
  m_timestamp :: timestamp
  m_success_count :: int
  m_total_count :: int
  m_current_slo :: rat
  error_budget_remaining :: rat

text \<open>
  The message of an alert is an f-string; the model keeps the template and the values it
  formats, not the digits.
\<close>

datatype message =
    SLO_below_target rat rat   \<comment> \<open>\<^verbatim>\<open>f'SLO below target: {current:.2f}% < {target:.2f}%'\<close>\<close>
  | Error_budget_low rat       \<comment> \<open>\<^verbatim>\<open>f'Error budget low: {error_budget:.1f}% remaining'\<close>\<close>
  | High_burn_rate rat         \<comment> \<open>\<^verbatim>\<open>f'High error budget burn rate: {burn_rate:.2f}%/hr'\<close>\<close>

record alert_row =
  a_slo_id :: string
  triggered_at :: timestamp
  severity :: string
  a_message :: message
  a_burn_rate :: rat

record database =
  slo_definitions :: "definition_row list"
  slo_measurements :: "measurement_row list"
  slo_alerts :: "alert_row list"

text \<open>The object \<^verbatim>\<open>self\<close>: the open connection and the dictionary \<^verbatim>\<open>self.slos\<close>.\<close>

record monitor =
  conn :: database
  slos :: "string \<rightharpoonup> slo"

text \<open>The dictionary that \<^verbatim>\<open>simulate_measurements\<close> returns and \<^verbatim>\<open>check_slo_alerts\<close> reads.\<close>

record measurement =
  ms_slo_id :: string
  current_slo :: rat
  ms_target :: rat
  error_budget :: rat
  success_count :: int
  total_count :: int

section \<open>Burn rate\<close>

text \<open>
  Lines 179-186 of \<^verbatim>\<open>calculate_burn_rate\<close>, on the list \<^verbatim>\<open>measurements\<close> that the query
  returned:
  \<^verbatim>\<open>
  if len(measurements) < 2:
      return 0.0
  budget_change = measurements[0] - measurements[-1]
  burn_rate = budget_change / len(measurements)
  return burn_rate
  \<close>
  Both indexings are in range on the second branch.
\<close>

definition burn_rate_of :: "rat list \<Rightarrow> rat" where
  "burn_rate_of measurements =
     (if length measurements < 2 then 0
      else let budget_change = measurements ! 0 - last measurements;
               burn_rate = budget_change / of_nat (length measurements)
           in burn_rate)"

definition one_hour :: int where
  "one_hour = 3600 * 1000000"

text \<open>
  The query of \<^verbatim>\<open>calculate_burn_rate\<close>: the rows of the SLO younger than one hour,
  \<^verbatim>\<open>ORDER BY timestamp\<close> (rows of equal timestamp stay in insertion order here;
  PostgreSQL leaves their order open).
\<close>

definition budget_history :: "database \<Rightarrow> timestamp \<Rightarrow> string \<Rightarrow> rat list" where
  "budget_history db now sid =
     map error_budget_remaining
       (sort_key m_timestamp
          (filter (\<lambda>r. m_slo_id r = sid \<and> m_timestamp r > now - one_hour)
             (slo_measurements db)))"

definition calculate_burn_rate :: "database \<Rightarrow> timestamp \<Rightarrow> string \<Rightarrow> rat" where
  "calculate_burn_rate db now sid = burn_rate_of (budget_history db now sid)"

section \<open>Measurements\<close>

text \<open>
  Python's \<^verbatim>\<open>int(x)\<close> on a float truncates towards zero.
\<close>

definition py_int :: "rat \<Rightarrow> int" where
  "py_int x = (if 0 \<le> x then \<lfloor>x\<rfloor> else \<lceil>x\<rceil>)"

text \<open>
  \<^verbatim>\<open>a / b\<close> on two Python integers raises \<^verbatim>\<open>ZeroDivisionError\<close> when \<^verbatim>\<open>b\<close> is 0.
  \<^verbatim>\<open>x / y\<close> on two decimals raises \<^verbatim>\<open>decimal.DivisionByZero\<close> when only \<^verbatim>\<open>y\<close> is 0
  and \<^verbatim>\<open>decimal.InvalidOperation\<close> when both are.
\<close>

definition int_truediv :: "int \<Rightarrow> int \<Rightarrow> py_error + rat" where
  "int_truediv a b = (if b = 0 then Inl ZeroDivisionError else Inr (of_int a / of_int b))"

definition decimal_div :: "rat \<Rightarrow> rat \<Rightarrow> py_error + rat" where
  "decimal_div x y =
     (if y = 0 then (if x = 0 then Inl InvalidOperation else Inl ZeroDivisionError)
      else Inr (x / y))"

text \<open>
  Lines 136-142 of \<^verbatim>\<open>simulate_measurements\<close>, the arithmetic on \<^verbatim>\<open>target\<close>, \<^verbatim>\<open>total\<close>
  and \<^verbatim>\<open>successes\<close> (the source binds \<^verbatim>\<open>total = 1000\<close> and derives \<^verbatim>\<open>successes\<close>
  on lines 122-123; here they are the parameters \<open>tot\<close> and \<open>successes\<close>):
  \<^verbatim>\<open>
  current_slo = (successes / total) * 100
  allowed_errors = total * (1 - target / 100)
  actual_errors = total - successes
  error_budget_remaining = ((allowed_errors - actual_errors) / allowed_errors) * 100
  \<close>
  The result is the pair \<^verbatim>\<open>(current_slo, error_budget_remaining)\<close>. There is no check of
  the counts and no guard of either division.
\<close>

definition allowed_errors :: "rat \<Rightarrow> int \<Rightarrow> rat" where
  "allowed_errors target tot = of_int tot * (1 - target / 100)"

definition actual_errors :: "int \<Rightarrow> int \<Rightarrow> int" where
  "actual_errors tot successes = tot - successes"

definition error_budget_calc :: "rat \<Rightarrow> int \<Rightarrow> int \<Rightarrow> py_error + rat \<times> rat" where
  "error_budget_calc target tot successes =
     (case int_truediv successes tot of
        Inl e \<Rightarrow> Inl e
      | Inr q \<Rightarrow>
          (case decimal_div
                  (allowed_errors target tot - of_int (actual_errors tot successes))
                  (allowed_errors target tot) of
             Inl e \<Rightarrow> Inl e
           | Inr d \<Rightarrow> Inr (q * 100, d * 100)))"

text \<open>
  \<^verbatim>\<open>simulate_measurements(slo_id, success_rate)\<close>. \<^verbatim>\<open>cursor.fetchone()\<close> is the first row
  of the SLO, or \<^verbatim>\<open>None\<close>, which the tuple assignment cannot unpack. On success the
  measurement is appended to \<^verbatim>\<open>slo_measurements\<close> and the dictionary returned.
\<close>

definition simulate_measurements ::
    "database \<Rightarrow> timestamp \<Rightarrow> string \<Rightarrow> rat \<Rightarrow> py_error + database \<times> measurement" where
  "simulate_measurements db now sid success_rate =
     (let total = 1000;
          successes = py_int (of_int total * (success_rate / 100))
      in case find (\<lambda>d. d_slo_id d = sid) (slo_definitions db) of
           None \<Rightarrow> Inl TypeError
         | Some d \<Rightarrow>
             (case error_budget_calc (target_percentage d) total successes of
                Inl e \<Rightarrow> Inl e
              | Inr (cur, budget) \<Rightarrow>
                  Inr (db\<lparr>slo_measurements := slo_measurements db @
                            [\<lparr>m_slo_id = sid, m_timestamp = now, m_success_count = successes,
                              m_total_count = total, m_current_slo = cur,
                              error_budget_remaining = budget\<rparr>]\<rparr>,
                       \<lparr>ms_slo_id = sid, current_slo = cur,
                        ms_target = target_percentage d, error_budget = budget,
                        success_count = successes, total_count = total\<rparr>)))"

section \<open>Alerts\<close>

text \<open>One \<^verbatim>\<open>INSERT INTO slo_alerts\<close>; \<^verbatim>\<open>triggered_at\<close> defaults to \<^verbatim>\<open>NOW()\<close>.\<close>

definition insert_alert ::
    "database \<Rightarrow> timestamp \<Rightarrow> string \<Rightarrow> string \<Rightarrow> message \<Rightarrow> rat \<Rightarrow> database" where
  "insert_alert db now sid sev msg rate =
     db\<lparr>slo_alerts := slo_alerts db @
          [\<lparr>a_slo_id = sid, triggered_at = now, severity = sev, a_message = msg,
            a_burn_rate = rate\<rparr>]\<rparr>"

text \<open>
  \<^verbatim>\<open>check_slo_alerts(measurement)\<close>: three \<^verbatim>\<open>if\<close> statements in sequence, none of them an
  \<^verbatim>\<open>elif\<close>. The burn rate is read from the database after the first two. One call uses
  one value of \<open>now\<close>.
\<close>

definition check_slo_alerts :: "database \<Rightarrow> timestamp \<Rightarrow> measurement \<Rightarrow> database" where
  "check_slo_alerts db now measurement =
     (let sid = ms_slo_id measurement;
          current = current_slo measurement;
          tgt = ms_target measurement;
          budget = error_budget measurement;
          db1 = (if current < tgt
                 then insert_alert db now sid ''high'' (SLO_below_target current tgt) 0
                 else db);
          db2 = (if budget < 20
                 then insert_alert db1 now sid (if budget < 10 then ''critical'' else ''high'')
                        (Error_budget_low budget) 0
                 else db1);
          burn_rate = calculate_burn_rate db2 now sid
      in if burn_rate > 5
         then insert_alert db2 now sid ''critical'' (High_burn_rate burn_rate) burn_rate
         else db2)"

section \<open>SLO definitions\<close>

text \<open>The list \<^verbatim>\<open>slos\<close> of \<^verbatim>\<open>define_slos\<close>.\<close>

definition slos_list :: "slo list" where
  "slos_list =
     [\<lparr>slo_id = ''db-availability'', service_name = ''database'',
       slo_type = ''availability'', slo_target = 999 / 10, slo_window = 720,
       description = ''Database must be available 99.9% of time''\<rparr>,
      \<lparr>slo_id = ''query-latency'', service_name = ''database'',
       slo_type = ''latency'', slo_target = 95, slo_window = 168,
       description = ''95% of queries must complete in < 100ms''\<rparr>,
      \<lparr>slo_id = ''api-success-rate'', service_name = ''api'',
       slo_type = ''success_rate'', slo_target = 995 / 10, slo_window = 168,
       description = ''99.5% of API requests must succeed''\<rparr>]"

text \<open>
  \<^verbatim>\<open>INSERT INTO slo_definitions ... ON CONFLICT (slo_id) DO NOTHING\<close>: \<^verbatim>\<open>slo_id\<close> is the
  primary key, and a row whose key is present is not inserted.
\<close>

definition insert_definition :: "database \<Rightarrow> slo \<Rightarrow> database" where
  "insert_definition db s =
     (if slo_id s \<in> set (map d_slo_id (slo_definitions db)) then db
      else db\<lparr>slo_definitions := slo_definitions db @
                [\<lparr>d_slo_id = slo_id s, d_service_name = service_name s,
                  d_slo_type = slo_type s, target_percentage = slo_target s,
                  measurement_window_hours = slo_window s, d_description = description s\<rparr>]\<rparr>)"

text \<open>The body of the loop of \<^verbatim>\<open>define_slos\<close>, and the loop over the list.\<close>

definition define_slo :: "monitor \<Rightarrow> slo \<Rightarrow> monitor" where
  "define_slo self s =
     self\<lparr>conn := insert_definition (conn self) s, slos := (slos self)(slo_id s \<mapsto> s)\<rparr>"

definition define_slos :: "monitor \<Rightarrow> monitor" where
  "define_slos self = foldl define_slo self slos_list"

section \<open>A fresh monitor\<close>

text \<open>
  \<^verbatim>\<open>__init__\<close> sets \<^verbatim>\<open>self.slos = {}\<close>; on a new database \<^verbatim>\<open>setup\<close> creates the three
  tables, all empty.
\<close>

definition empty_db :: database where
  "empty_db = \<lparr>slo_definitions = [], slo_measurements = [], slo_alerts = []\<rparr>"

definition new_monitor :: monitor where
  "new_monitor = \<lparr>conn = empty_db, slos = Map.empty\<rparr>"

text \<open>
  A run as \<^verbatim>\<open>run_monitoring\<close> makes it, used for the examples below: the database
  after \<^verbatim>\<open>define_slos\<close> and two calls \<^verbatim>\<open>simulate_measurements('query-latency', 96)\<close>
  and \<^verbatim>\<open>simulate_measurements('query-latency', 90)\<close> at the times 1 and 2, and the
  dictionary that the second call returns (lemma \<open>example_run\<close>).
\<close>

definition example_db :: database where
  "example_db =
     \<lparr>slo_definitions = slo_definitions (conn (define_slos new_monitor)),
      slo_measurements =
        [\<lparr>m_slo_id = ''query-latency'', m_timestamp = 1, m_success_count = 960,
          m_total_count = 1000, m_current_slo = 96, error_budget_remaining = 20\<rparr>,
         \<lparr>m_slo_id = ''query-latency'', m_timestamp = 2, m_success_count = 900,
          m_total_count = 1000, m_current_slo = 90, error_budget_remaining = - 100\<rparr>],
      slo_alerts = []\<rparr>"

definition example_measurement :: measurement where
  "example_measurement =
     \<lparr>ms_slo_id = ''query-latency'', current_slo = 90, ms_target = 95,
      error_budget = - 100, success_count = 900, total_count = 1000\<rparr>"

section \<open>Properties of the burn rate\<close>

text \<open>
  C1. The claim reads: on at least two samples the estimator returns
  (oldest - newest) / (count - 1), so 20 on [80, 60, 40]. The source divides by the
  number of samples, not by the number of steps between them: on [80, 60, 40] it
  returns 40 / 3.
\<close>

theorem burn_rate_80_60_40:
  "burn_rate_of [80, 60, 40] = 40 / 3 \<and> burn_rate_of [80, 60, 40] \<noteq> (80 - 40) / (3 - 1)"
  by (simp add: burn_rate_of_def)

lemma burn_rate_of_two_or_more:
  "2 \<le> length measurements \<Longrightarrow>
   burn_rate_of measurements =
     (hd measurements - last measurements) / of_nat (length measurements)"
  by (cases measurements) (simp_all add: burn_rate_of_def)

lemma calculate_burn_rate_short_history:
  "length (budget_history db now sid) < 2 \<Longrightarrow> calculate_burn_rate db now sid = 0"
  by (simp add: calculate_burn_rate_def burn_rate_of_def)

text \<open>
  C6. On fewer than two samples (none, or one) the burn rate is exactly 0; the function
  is total, so nothing is raised.
\<close>

theorem burn_rate_short:
  "length measurements < 2 \<Longrightarrow> burn_rate_of measurements = 0"
  by (simp add: burn_rate_of_def)

theorem burn_rate_short_witness:
  "length ([] :: rat list) < 2 \<and> burn_rate_of [] = 0 \<and>
   length [37 :: rat] < 2 \<and> burn_rate_of [37] = 0"
  using burn_rate_short [of "[]"] burn_rate_short [of "[37]"] by simp

section \<open>Properties of the error budget\<close>

lemma error_budget_calc_total_0: "error_budget_calc tgt 0 s = Inl ZeroDivisionError"
  by (simp add: error_budget_calc_def int_truediv_def)

lemma allowed_errors_eq_0_iff: "tot \<noteq> 0 \<Longrightarrow> allowed_errors tgt tot = 0 \<longleftrightarrow> tgt = 100"
  by (auto simp: allowed_errors_def)

lemma error_budget_calc_returns:
  "tot \<noteq> 0 \<Longrightarrow> tgt \<noteq> 100 \<Longrightarrow>
   error_budget_calc tgt tot s =
     Inr (of_int s / of_int tot * 100,
          (allowed_errors tgt tot - of_int (actual_errors tot s)) / allowed_errors tgt tot * 100)"
  by (simp add: error_budget_calc_def int_truediv_def decimal_div_def allowed_errors_eq_0_iff)

lemmas calc_defs =
  error_budget_calc_def int_truediv_def decimal_div_def allowed_errors_def actual_errors_def

text \<open>
  C2, as stated, fails: the source has no \<^verbatim>\<open>InvalidMeasurement\<close> and checks no count.
  With 1500 or -50 successes out of 1000 a result is returned; with a total of 0 the
  error is the \<^verbatim>\<open>ZeroDivisionError\<close> of line 137.
\<close>

theorem error_budget_calc_accepts_bad_counts:
  "error_budget_calc (999 / 10) 1000 1500 = Inr (150, 50100) \<and>
   error_budget_calc (999 / 10) 1000 (- 50) = Inr (- 5, - 104900) \<and>
   error_budget_calc (999 / 10) 0 0 = Inl ZeroDivisionError"
  by (simp add: calc_defs)

text \<open>
  C2, amended. The counts are not validated: a total of 0 raises \<^verbatim>\<open>ZeroDivisionError\<close>;
  with any other total and a target other than 100 the two percentages are returned for
  every number of successes, inside the range 0 .. total or not.
\<close>

theorem error_budget_calc_unvalidated:
  "(tot = 0 \<longrightarrow> error_budget_calc tgt tot s = Inl ZeroDivisionError) \<and>
   (tot \<noteq> 0 \<and> tgt \<noteq> 100 \<longrightarrow>
      error_budget_calc tgt tot s =
        Inr (of_int s / of_int tot * 100,
             (allowed_errors tgt tot - of_int (actual_errors tot s)) /
               allowed_errors tgt tot * 100))"
  by (simp add: error_budget_calc_total_0 error_budget_calc_returns)

theorem error_budget_calc_unvalidated_witness:
  "(0 :: int) = 0 \<and> error_budget_calc (999 / 10) 0 5 = Inl ZeroDivisionError \<and>
   (1000 :: int) \<noteq> 0 \<and> (999 / 10 :: rat) \<noteq> 100 \<and>
   error_budget_calc (999 / 10) 1000 1500 = Inr (150, 50100)"
  using error_budget_calc_unvalidated [where tot = 0 and tgt = "999 / 10" and s = 5]
        error_budget_calc_unvalidated [where tot = 1000 and tgt = "999 / 10" and s = 1500]
  by (simp add: allowed_errors_def actual_errors_def)

text \<open>
  C3, as stated, fails: at a target of 100 the division by \<^verbatim>\<open>allowed_errors\<close> is not
  guarded. With 999 successes out of 1000 the claim promises a budget of 0, with 1000 a
  budget of 100; the source raises in both cases.
\<close>

theorem error_budget_calc_target_100_raises:
  "error_budget_calc 100 1000 999 = Inl ZeroDivisionError \<and>
   error_budget_calc 100 1000 1000 = Inl InvalidOperation"
  by (simp add: calc_defs)

text \<open>
  C3, amended. When \<^verbatim>\<open>allowed_errors\<close> is 0 (a target of 100) and the total is not 0,
  no budget is returned: the division raises, \<^verbatim>\<open>decimal.InvalidOperation\<close> when there
  are no errors and \<^verbatim>\<open>ZeroDivisionError\<close> otherwise.
\<close>

theorem error_budget_calc_no_allowance:
  "tot \<noteq> 0 \<Longrightarrow> allowed_errors tgt tot = 0 \<Longrightarrow>
   error_budget_calc tgt tot s =
     (if actual_errors tot s = 0 then Inl InvalidOperation else Inl ZeroDivisionError)"
  by (simp add: error_budget_calc_def int_truediv_def decimal_div_def)

theorem error_budget_calc_no_allowance_witness:
  "(1000 :: int) \<noteq> 0 \<and> allowed_errors 100 1000 = 0 \<and>
   error_budget_calc 100 1000 999 = Inl ZeroDivisionError"
  using error_budget_calc_no_allowance [where tot = 1000 and tgt = 100 and s = 999]
  by (simp add: allowed_errors_def actual_errors_def)

text \<open>
  C5, as stated, fails twice: at target 99.9, total 1000 and 995 successes the budget
  is -400, not -300 (one error is allowed and five are made: 100 * (1 - 5) / 1); and a
  target of 100, which the claim counts as valid, yields no result.
\<close>

theorem error_budget_calc_995_of_1000:
  "error_budget_calc (999 / 10) 1000 995 = Inr (199 / 2, - 400) \<and>
   error_budget_calc (999 / 10) 1000 995 \<noteq> Inr (199 / 2, - 300) \<and>
   error_budget_calc 100 1000 995 = Inl ZeroDivisionError"
  by (simp add: calc_defs)

lemma error_budget_calc_in_range:
  assumes "0 \<le> s" "s \<le> tot" "0 < tot" "0 < tgt" "tgt < 100"
  shows "\<exists>cur budget. error_budget_calc tgt tot s = Inr (cur, budget) \<and>
           0 \<le> cur \<and> cur \<le> 100 \<and> budget \<le> 100"
proof -
  have a: "0 < allowed_errors tgt tot"
    using assms by (simp add: allowed_errors_def)
  have 1: "0 \<le> (of_int s :: rat) / of_int tot * 100"
    using assms by simp
  have "(of_int s :: rat) \<le> of_int tot"
    using assms by simp
  then have 2: "(of_int s :: rat) / of_int tot * 100 \<le> 100"
    using assms by (simp add: pos_divide_le_eq)
  have "allowed_errors tgt tot - of_int (actual_errors tot s) \<le> allowed_errors tgt tot"
    using assms by (simp add: actual_errors_def)
  then have 3: "(allowed_errors tgt tot - of_int (actual_errors tot s)) /
                  allowed_errors tgt tot * 100 \<le> 100"
    using a by (simp add: pos_divide_le_eq)
  show ?thesis
    using assms 1 2 3 by (simp add: error_budget_calc_returns)
qed

lemma error_budget_calc_below:
  "\<exists>tgt tot s cur budget.
      0 \<le> s \<and> s \<le> tot \<and> 0 < tot \<and> 0 < tgt \<and> tgt < 100 \<and>
      error_budget_calc tgt tot s = Inr (cur, budget) \<and> budget < B"
proof -
  define k :: int where "k = max 2 (\<lceil>1 - B / 100\<rceil> + 1)"
  define n :: rat where "n = of_int k"
  have n2: "2 \<le> n"
    by (simp add: n_def k_def)
  have "1 - B / 100 \<le> of_int \<lceil>1 - B / 100\<rceil>"
    by (rule le_of_int_ceiling)
  also have "\<dots> < of_int k"
    unfolding k_def by simp
  finally have nB: "1 - B / 100 < n"
    by (simp add: n_def)
  define tgt :: rat where "tgt = 100 - 100 / n"
  have tgt: "0 < tgt" "tgt < 100" "tgt \<noteq> 100"
    using n2 by (simp_all add: tgt_def pos_divide_less_eq)
  have al: "allowed_errors tgt 1 = 1 / n"
    using n2 by (simp add: allowed_errors_def tgt_def field_simps)
  have "(allowed_errors tgt 1 - of_int (actual_errors 1 0)) / allowed_errors tgt 1 * 100
        = (1 - n) * 100"
    using n2 by (simp add: al actual_errors_def field_simps)
  moreover have "(1 - n) * 100 < B"
    using nB by simp
  ultimately have "error_budget_calc tgt 1 0 = Inr (0, (1 - n) * 100) \<and> (1 - n) * 100 < B"
    using tgt by (simp add: error_budget_calc_returns)
  with tgt show ?thesis
    by (intro exI [of _ tgt] exI [of _ "1 :: int"] exI [of _ "0 :: int"]
          exI [of _ "0 :: rat"] exI [of _ "(1 - n) * 100"]) simp
qed

text \<open>
  C5, amended. For 0 \<le> successes \<le> total, 0 < total and 0 < target < 100 the
  calculation returns a \<^verbatim>\<open>current_slo\<close> in [0, 100] and a budget of at most 100. The
  budget has no lower bound over these inputs and is not clamped: at target 99.9, total
  1000 and 995 successes it is exactly -400.
\<close>

theorem error_budget_calc_bounds:
  "(\<forall>tgt tot s. 0 \<le> s \<and> s \<le> tot \<and> 0 < tot \<and> 0 < tgt \<and> tgt < 100 \<longrightarrow>
      (\<exists>cur budget. error_budget_calc tgt tot s = Inr (cur, budget) \<and>
         0 \<le> cur \<and> cur \<le> 100 \<and> budget \<le> 100)) \<and>
   (\<forall>B. \<exists>tgt tot s cur budget.
      0 \<le> s \<and> s \<le> tot \<and> 0 < tot \<and> 0 < tgt \<and> tgt < 100 \<and>
      error_budget_calc tgt tot s = Inr (cur, budget) \<and> budget < B) \<and>
   error_budget_calc (999 / 10) 1000 995 = Inr (199 / 2, - 400)"
proof (intro conjI allI impI)
  fix tgt :: rat and tot s :: int
  assume "0 \<le> s \<and> s \<le> tot \<and> 0 < tot \<and> 0 < tgt \<and> tgt < 100"
  then show "\<exists>cur budget. error_budget_calc tgt tot s = Inr (cur, budget) \<and>
               0 \<le> cur \<and> cur \<le> 100 \<and> budget \<le> 100"
    by (intro error_budget_calc_in_range) simp_all
next
  fix B :: rat
  show "\<exists>tgt tot s cur budget.
          0 \<le> s \<and> s \<le> tot \<and> 0 < tot \<and> 0 < tgt \<and> tgt < 100 \<and>
          error_budget_calc tgt tot s = Inr (cur, budget) \<and> budget < B"
    by (rule error_budget_calc_below)
next
  show "error_budget_calc (999 / 10) 1000 995 = Inr (199 / 2, - 400)"
    by (simp add: calc_defs)
qed

theorem error_budget_calc_bounds_witness:
  "(0 :: int) \<le> 999 \<and> (999 :: int) \<le> 1000 \<and> (0 :: int) < 1000 \<and>
   (0 :: rat) < 999 / 10 \<and> (999 / 10 :: rat) < 100 \<and>
   (\<exists>cur budget. error_budget_calc (999 / 10) 1000 999 = Inr (cur, budget) \<and>
      0 \<le> cur \<and> cur \<le> 100 \<and> budget \<le> 100)"
  using error_budget_calc_bounds
          [THEN conjunct1, THEN spec [where x = "999 / 10"],
           THEN spec [where x = 1000], THEN spec [where x = 999]]
  by simp

text \<open>
  C7. With a positive \<^verbatim>\<open>allowed_errors\<close>, and the target and the total fixed, more
  errors give a strictly smaller budget; both calculations return.
\<close>

theorem error_budget_strictly_decreasing:
  assumes "0 < allowed_errors tgt tot"
      and "actual_errors tot s1 < actual_errors tot s2"
  shows "\<exists>c1 b1 c2 b2. error_budget_calc tgt tot s1 = Inr (c1, b1) \<and>
           error_budget_calc tgt tot s2 = Inr (c2, b2) \<and> b2 < b1"
proof -
  from assms(1) have t: "tot \<noteq> 0" "tgt \<noteq> 100"
    by (auto simp: allowed_errors_def)
  have "(allowed_errors tgt tot - of_int (actual_errors tot s2)) / allowed_errors tgt tot * 100
      < (allowed_errors tgt tot - of_int (actual_errors tot s1)) / allowed_errors tgt tot * 100"
    using assms by (simp add: divide_strict_right_mono)
  then show ?thesis
    using t by (simp add: error_budget_calc_returns)
qed

theorem error_budget_strictly_decreasing_witness:
  "0 < allowed_errors (999 / 10) 1000 \<and> actual_errors 1000 999 < actual_errors 1000 995 \<and>
   (\<exists>c1 b1 c2 b2. error_budget_calc (999 / 10) 1000 999 = Inr (c1, b1) \<and>
      error_budget_calc (999 / 10) 1000 995 = Inr (c2, b2) \<and> b2 < b1)"
proof -
  have a: "0 < allowed_errors (999 / 10) 1000"
    by (simp add: allowed_errors_def)
  have b: "actual_errors 1000 999 < actual_errors 1000 995"
    by (simp add: actual_errors_def)
  from error_budget_strictly_decreasing [OF a b] a b show ?thesis
    by blast
qed

section \<open>Properties of a measurement\<close>

lemmas setup_defs =
  new_monitor_def empty_db_def define_slos_def slos_list_def define_slo_def insert_definition_def


lemma example_run:
  "(case simulate_measurements (conn (define_slos new_monitor)) 1 ''query-latency'' 96 of
      Inl e \<Rightarrow> False
    | Inr (db1, m1) \<Rightarrow>
        simulate_measurements db1 2 ''query-latency'' 90 =
          Inr (example_db, example_measurement))"
  by (simp add: simulate_measurements_def Let_def py_int_def calc_defs setup_defs
        example_db_def example_measurement_def)

lemma simulate_measurements_unknown_slo:
  "find (\<lambda>d. d_slo_id d = sid) (slo_definitions db) = None \<Longrightarrow>
   simulate_measurements db now sid rate = Inl TypeError"
  by (simp add: simulate_measurements_def Let_def)



section \<open>Properties of the alerts\<close>

lemma calculate_burn_rate_insert_alert:
  "calculate_burn_rate (insert_alert db now sid sev msg rate) t s = calculate_burn_rate db t s"
  by (simp add: calculate_burn_rate_def budget_history_def insert_alert_def)

lemma check_slo_alerts_inserts:
  "check_slo_alerts db now m =
     db\<lparr>slo_alerts := slo_alerts db @
       (if current_slo m < ms_target m
        then [\<lparr>a_slo_id = ms_slo_id m, triggered_at = now, severity = ''high'',
               a_message = SLO_below_target (current_slo m) (ms_target m), a_burn_rate = 0\<rparr>]
        else []) @
       (if error_budget m < 20
        then [\<lparr>a_slo_id = ms_slo_id m, triggered_at = now,
               severity = (if error_budget m < 10 then ''critical'' else ''high''),
               a_message = Error_budget_low (error_budget m), a_burn_rate = 0\<rparr>]
        else []) @
       (if calculate_burn_rate db now (ms_slo_id m) > 5
        then [\<lparr>a_slo_id = ms_slo_id m, triggered_at = now, severity = ''critical'',
               a_message = High_burn_rate (calculate_burn_rate db now (ms_slo_id m)),
               a_burn_rate = calculate_burn_rate db now (ms_slo_id m)\<rparr>]
        else [])\<rparr>"
  by (simp add: check_slo_alerts_def Let_def calculate_burn_rate_insert_alert)
     (simp add: insert_alert_def)

lemma example_burn_rate: "calculate_burn_rate example_db 3 ''query-latency'' = 60"
  by (simp add: calculate_burn_rate_def budget_history_def example_db_def one_hour_def
        burn_rate_of_def)

lemma example_alerts:
  "slo_alerts (check_slo_alerts example_db 3 example_measurement) =
     [\<lparr>a_slo_id = ''query-latency'', triggered_at = 3, severity = ''high'',
       a_message = SLO_below_target 90 95, a_burn_rate = 0\<rparr>,
      \<lparr>a_slo_id = ''query-latency'', triggered_at = 3, severity = ''critical'',
       a_message = Error_budget_low (- 100), a_burn_rate = 0\<rparr>,
      \<lparr>a_slo_id = ''query-latency'', triggered_at = 3, severity = ''critical'',
       a_message = High_burn_rate 60, a_burn_rate = 60\<rparr>]"
  by (simp add: check_slo_alerts_inserts example_measurement_def example_burn_rate)
     (simp add: example_db_def)

text \<open>
  C4. The alerts that one evaluation appends to \<^verbatim>\<open>slo_alerts\<close> are, in this order:
  one of severity high with burn rate 0 if \<^verbatim>\<open>current_slo < target\<close>; one if
  \<^verbatim>\<open>error_budget < 20\<close>, critical below 10 and high otherwise; one of severity critical
  carrying the burn rate if the burn rate that \<^verbatim>\<open>calculate_burn_rate\<close> computes is above
  5. Each check stands alone, so any subset of the three can fire.
\<close>

theorem check_slo_alerts_three_checks:
  "slo_alerts (check_slo_alerts db now m) =
     slo_alerts db @
       (if current_slo m < ms_target m
        then [\<lparr>a_slo_id = ms_slo_id m, triggered_at = now, severity = ''high'',
               a_message = SLO_below_target (current_slo m) (ms_target m), a_burn_rate = 0\<rparr>]
        else []) @
       (if error_budget m < 20
        then [\<lparr>a_slo_id = ms_slo_id m, triggered_at = now,
               severity = (if error_budget m < 10 then ''critical'' else ''high''),
               a_message = Error_budget_low (error_budget m), a_burn_rate = 0\<rparr>]
        else []) @
       (if calculate_burn_rate db now (ms_slo_id m) > 5
        then [\<lparr>a_slo_id = ms_slo_id m, triggered_at = now, severity = ''critical'',
               a_message = High_burn_rate (calculate_burn_rate db now (ms_slo_id m)),
               a_burn_rate = calculate_burn_rate db now (ms_slo_id m)\<rparr>]
        else [])"
  by (simp add: check_slo_alerts_inserts)

text \<open>
  C9. One evaluation keeps the alerts that were there and appends alerts of severity
  high or critical only; none has the severity warning.
\<close>

theorem check_slo_alerts_severity:
  "take (length (slo_alerts db)) (slo_alerts (check_slo_alerts db now m)) = slo_alerts db \<and>
   (\<forall>a \<in> set (drop (length (slo_alerts db)) (slo_alerts (check_slo_alerts db now m))).
      (severity a = ''high'' \<or> severity a = ''critical'') \<and> severity a \<noteq> ''warning'')"
  by (auto simp: check_slo_alerts_inserts)

theorem check_slo_alerts_severity_witness:
  "\<lparr>a_slo_id = ''query-latency'', triggered_at = 3, severity = ''critical'',
     a_message = High_burn_rate 60, a_burn_rate = 60\<rparr>
     \<in> set (drop (length (slo_alerts example_db))
               (slo_alerts (check_slo_alerts example_db 3 example_measurement))) \<and>
   severity \<lparr>a_slo_id = ''query-latency'', triggered_at = 3, severity = ''critical'',
              a_message = High_burn_rate 60, a_burn_rate = 60\<rparr> \<noteq> ''warning''"
proof -
  let ?a = "\<lparr>a_slo_id = ''query-latency'', triggered_at = 3, severity = ''critical'',
              a_message = High_burn_rate 60, a_burn_rate = 60\<rparr>"
  have "length (slo_alerts example_db) = 0"
    by (simp add: example_db_def)
  then have mem: "?a \<in> set (drop (length (slo_alerts example_db))
                     (slo_alerts (check_slo_alerts example_db 3 example_measurement)))"
    by (simp add: example_alerts)
  from check_slo_alerts_severity [THEN conjunct2, THEN bspec, OF mem]
  have "severity ?a \<noteq> ''warning''"
    by (rule conjunct2)
  with mem show ?thesis
    by (rule conjI)
qed

section \<open>Properties of the SLO definitions\<close>












end
